theory Spec2Isabelle
  imports Main "HOL-Library.Multiset" "HOL-Library.Word"
begin

section \<open>Python values the two scripts work on\<close>

text \<open>
  A Python \<^verbatim>\<open>str\<close> is a sequence of Unicode code points, and \<^verbatim>\<open>len\<close>, indexing,
  \<^verbatim>\<open>re.sub\<close> and \<^verbatim>\<open>split\<close> all count code points. A character is therefore modelled by
  its code point, a natural number, and a string by the list of its code points.
  \<open>str\<close> turns a literal of the theory into such a string; characters outside the
  8-bit range are written by their number (\<open>0x2705\<close> is the check mark of the manifest).
\<close>

type_synonym pychar = nat
type_synonym pystr = "pychar list"

definition str :: "string \<Rightarrow> pystr" where
  "str cs = map of_char cs"

text \<open>The exceptions that the modelled statements can raise.\<close>

datatype error = IndexError | AttributeError | TypeError | JSONDecodeError | UnicodeEncodeError

subsection \<open>Character classes\<close>

text \<open>
  \<open>is_alnum\<close> is the class \<^verbatim>\<open>[a-zA-Z0-9]\<close> of the pattern: without flags these ranges
  match ASCII letters and digits only.
\<close>

definition is_alnum :: "pychar \<Rightarrow> bool" where
  "is_alnum c = ((97 \<le> c \<and> c \<le> 122) \<or> (65 \<le> c \<and> c \<le> 90) \<or> (48 \<le> c \<and> c \<le> 57))"

text \<open>
  \<open>is_space\<close> is the class \<^verbatim>\<open>\s\<close> of a \<^verbatim>\<open>str\<close> pattern, which is also the set of
  characters that \<^verbatim>\<open>str.split()\<close> without argument splits at (both are
  \<^verbatim>\<open>str.isspace\<close>): tab to carriage return, the four separators 0x1C to 0x1F, the space,
  NEL, the no-break space, and the Unicode spaces beyond Latin-1.
\<close>

definition is_space :: "pychar \<Rightarrow> bool" where
  "is_space c = ((9 \<le> c \<and> c \<le> 13) \<or> (28 \<le> c \<and> c \<le> 32) \<or> c = 0x85 \<or> c = 0xA0
     \<or> c = 0x1680 \<or> (0x2000 \<le> c \<and> c \<le> 0x200A) \<or> c = 0x2028 \<or> c = 0x2029
     \<or> c = 0x202F \<or> c = 0x205F \<or> c = 0x3000)"

text \<open>
  \<^verbatim>\<open>str.lower\<close>, \<^verbatim>\<open>str.upper\<close> and \<^verbatim>\<open>str.capitalize\<close>. The scripts apply them only to
  what is left of a string after the pattern has removed every character outside
  \<^verbatim>\<open>[a-zA-Z0-9\s]\<close> and \<^verbatim>\<open>split\<close> has removed the whitespace (lemma \<open>words_alnum\<close>
  below), so the case mappings are written out for ASCII; other characters are left as
  they are, which is not what Python does to a cased non-ASCII letter.
\<close>

definition lower_char :: "pychar \<Rightarrow> pychar" where
  "lower_char c = (if 65 \<le> c \<and> c \<le> 90 then c + 32 else c)"

definition upper_char :: "pychar \<Rightarrow> pychar" where
  "upper_char c = (if 97 \<le> c \<and> c \<le> 122 then c - 32 else c)"

definition lower :: "pystr \<Rightarrow> pystr" where
  "lower s = map lower_char s"

definition upper :: "pystr \<Rightarrow> pystr" where
  "upper s = map upper_char s"

fun capitalize :: "pystr \<Rightarrow> pystr" where
  "capitalize [] = []"
| "capitalize (c # cs) = upper_char c # map lower_char cs"

subsection \<open>\<^verbatim>\<open>re.sub\<close>, \<^verbatim>\<open>split\<close> and \<^verbatim>\<open>join\<close>\<close>

text \<open>
  \<^verbatim>\<open>re.sub(r'[^a-zA-Z0-9\s]', '', s)\<close> deletes every character that is neither in
  \<^verbatim>\<open>[a-zA-Z0-9]\<close> nor whitespace and keeps the others in place.
\<close>

definition re_sub_strip :: "pystr \<Rightarrow> pystr" where
  "re_sub_strip s = filter (\<lambda>c. is_alnum c \<or> is_space c) s"

text \<open>
  \<^verbatim>\<open>s.split()\<close>: skip a run of whitespace, take the maximal run of other characters
  as a word, go on behind it. No word is empty, and a string of whitespace only gives
  the empty list.
\<close>

function py_split :: "pystr \<Rightarrow> pystr list" where
  "py_split s =
     (let r = dropWhile is_space s in
      if r = [] then []
      else takeWhile (\<lambda>c. \<not> is_space c) r # py_split (dropWhile (\<lambda>c. \<not> is_space c) r))"
  by pat_completeness auto
termination
proof (relation "measure length")
  show "wf (measure length)" by simp
next
  fix s r :: pystr
  assume r: "r = dropWhile is_space s" and ne: "r \<noteq> []"
  have "length (dropWhile (\<lambda>c. \<not> is_space c) r) < length r"
  proof (cases r)
    case Nil
    with ne show ?thesis by simp
  next
    case (Cons c cs)
    from r have "\<not> is_space (hd r)"
      using ne hd_dropWhile by metis
    with Cons have "dropWhile (\<lambda>c. \<not> is_space c) r = dropWhile (\<lambda>c. \<not> is_space c) cs"
      by simp
    with Cons show ?thesis
      by (simp add: length_dropWhile_le le_imp_less_Suc)
  qed
  also have "length r \<le> length s"
    using r by (simp add: length_dropWhile_le)
  finally show "(dropWhile (\<lambda>c. \<not> is_space c) r, s) \<in> measure length"
    by simp
qed

declare py_split.simps [simp del]

text \<open>\<^verbatim>\<open>sep.join(words)\<close>.\<close>

fun join :: "pystr \<Rightarrow> pystr list \<Rightarrow> pystr" where
  "join sep [] = []"
| "join sep [w] = w"
| "join sep (w # v # ws) = w @ sep @ join sep (v # ws)"

section \<open>The case conversions of \<^verbatim>\<open>generate-all-tables.py\<close>\<close>

text \<open>
  \<^verbatim>\<open>
  def to_camel_case(s):
      s = re.sub(r'[^a-zA-Z0-9\s]', '', s)
      words = s.split()
      return words[0].lower() + ''.join(word.capitalize() for word in words[1:])
  \<close>
  \<^verbatim>\<open>words[0]\<close> raises \<^verbatim>\<open>IndexError\<close> on the empty list.
\<close>

definition to_camel_case :: "pystr \<Rightarrow> error + pystr" where
  "to_camel_case s =
     (let s' = re_sub_strip s; words = py_split s' in
      case words of
        [] \<Rightarrow> Inl IndexError
      | w # ws \<Rightarrow> Inr (lower w @ join [] (map capitalize ws)))"

text \<open>
  \<^verbatim>\<open>
  def to_pascal_case(s):
      camel = to_camel_case(s)
      return camel[0].upper() + camel[1:] if camel else ''
  \<close>
  An exception of \<^verbatim>\<open>to_camel_case\<close> passes through; the conditional expression is
  evaluated only once \<^verbatim>\<open>camel\<close> has a value.
\<close>

definition to_pascal_case :: "pystr \<Rightarrow> error + pystr" where
  "to_pascal_case s =
     (case to_camel_case s of
        Inl e \<Rightarrow> Inl e
      | Inr camel \<Rightarrow>
          Inr (if camel \<noteq> [] then upper [hd camel] @ drop 1 camel else []))"

text \<open>
  \<^verbatim>\<open>
  def to_kebab_case(s):
      s = re.sub(r'[^a-zA-Z0-9\s]', '', s)
      return '-'.join(word.lower() for word in s.split())
  \<close>
  No statement of this function can raise on a \<^verbatim>\<open>str\<close>, so the model is a total
  function without an error branch.
\<close>

definition to_kebab_case :: "pystr \<Rightarrow> pystr" where
  "to_kebab_case s = join (str ''-'') (map lower (py_split (re_sub_strip s)))"

section \<open>The manifest report of \<^verbatim>\<open>generate-all-tables.py\<close>\<close>

text \<open>The table configurations: a list of dictionaries with the same eight keys.\<close>

record relationship =
  rel_field :: pystr
  rel_table :: pystr
  rel_nameField :: pystr

record table_config =
  name :: pystr
  tableName :: pystr
  entityName :: pystr
  entityNamePlural :: pystr
  routePath :: pystr
  pagePath :: pystr
  navName :: pystr
  relationships :: "relationship list"

definition TABLES :: "table_config list" where
  "TABLES =
    [\<lparr>name = str ''Normalized Activities'', tableName = str ''Normalized Activities'',
      entityName = str ''Normalized Activity'', entityNamePlural = str ''Normalized Activities'',
      routePath = str ''normalized-activities'', pagePath = str ''normalized-activities'',
      navName = str ''Normalized Activities'', relationships = []\<rparr>,
     \<lparr>name = str ''EF/Detailed G'', tableName = str ''EF/Detailed G'',
      entityName = str ''EF/Detailed G'', entityNamePlural = str ''EF/Detailed G'',
      routePath = str ''ef-detailed-g'', pagePath = str ''ef-detailed-g'',
      navName = str ''EF/Detailed G'',
      relationships =
        [\<lparr>rel_field = str ''EF GWP'', rel_table = str ''EF GWP'', rel_nameField = str ''Name''\<rparr>,
         \<lparr>rel_field = str ''GHG TYPE'', rel_table = str ''GHG TYPE'', rel_nameField = str ''Name''\<rparr>,
         \<lparr>rel_field = str ''Std Emission factors'', rel_table = str ''Std Emission factors'',
          rel_nameField = str ''Name''\<rparr>]\<rparr>,
     \<lparr>name = str ''Scope'', tableName = str ''Scope'',
      entityName = str ''Scope'', entityNamePlural = str ''Scopes'',
      routePath = str ''scope'', pagePath = str ''scope'',
      navName = str ''Scope'', relationships = []\<rparr>,
     \<lparr>name = str ''scope & categorisation'', tableName = str ''scope & categorisation'',
      entityName = str ''Scope & Categorisation'', entityNamePlural = str ''Scope & Categorisations'',
      routePath = str ''scope-categorisation'', pagePath = str ''scope-categorisation'',
      navName = str ''Scope & Categorisation'',
      relationships =
        [\<lparr>rel_field = str ''Scope'', rel_table = str ''Scope'', rel_nameField = str ''Name''\<rparr>]\<rparr>,
     \<lparr>name = str ''Unit'', tableName = str ''Unit'',
      entityName = str ''Unit'', entityNamePlural = str ''Units'',
      routePath = str ''unit'', pagePath = str ''unit'',
      navName = str ''Unit'', relationships = []\<rparr>,
     \<lparr>name = str ''Unit Conversion'', tableName = str ''Unit Conversion'',
      entityName = str ''Unit Conversion'', entityNamePlural = str ''Unit Conversions'',
      routePath = str ''unit-conversion'', pagePath = str ''unit-conversion'',
      navName = str ''Unit Conversion'',
      relationships =
        [\<lparr>rel_field = str ''Activity Density'', rel_table = str ''Activity Density'',
          rel_nameField = str ''Name''\<rparr>]\<rparr>,
     \<lparr>name = str ''Standard ECM catalog'', tableName = str ''Standard ECM catalog'',
      entityName = str ''Standard ECM Catalog'', entityNamePlural = str ''Standard ECM Catalogs'',
      routePath = str ''standard-ecm-catalog'', pagePath = str ''standard-ecm-catalog'',
      navName = str ''Standard ECM Catalog'',
      relationships =
        [\<lparr>rel_field = str ''Standard ECM Classification'',
          rel_table = str ''Standard ECM Classification'', rel_nameField = str ''Name''\<rparr>]\<rparr>,
     \<lparr>name = str ''Standard ECM Classification'', tableName = str ''Standard ECM Classification'',
      entityName = str ''Standard ECM Classification'',
      entityNamePlural = str ''Standard ECM Classifications'',
      routePath = str ''standard-ecm-classification'', pagePath = str ''standard-ecm-classification'',
      navName = str ''Standard ECM Classification'',
      relationships =
        [\<lparr>rel_field = str ''Standard ECM catalog'', rel_table = str ''Standard ECM catalog'',
          rel_nameField = str ''Name''\<rparr>]\<rparr>]"

text \<open>
  The decimal digits of a number, as an f-string writes \<^verbatim>\<open>{len(...)}\<close> and
  \<^verbatim>\<open>{response.status_code}\<close>.
\<close>

fun str_of_nat :: "nat \<Rightarrow> pystr" where
  "str_of_nat n = (if n < 10 then [48 + n] else str_of_nat (n div 10) @ [48 + n mod 10])"

declare str_of_nat.simps [simp del]

definition str_of_int :: "int \<Rightarrow> pystr" where
  "str_of_int i = (if i < 0 then str ''-'' @ str_of_nat (nat (- i)) else str_of_nat (nat i))"

text \<open>
  The console is the list of the strings printed so far, one entry for each call of
  \<^verbatim>\<open>print\<close> (the newline that \<^verbatim>\<open>print\<close> adds is left out; \<^verbatim>\<open>print()\<close> gives the
  empty string). A run ends with the console and the exception that stopped it, if any.

  \<^verbatim>\<open>
  for table in TABLES:
      camel = to_camel_case(table['name'])
      pascal = to_pascal_case(table['name'])
      kebab = table['routePath']

      print(f"[check mark] {table['name']}:")
      print(f"   - Types: {pascal}.ts")
      print(f"   - Service: {pascal}AirtableService.ts")
      print(f"   - Controller: {pascal}Controller.ts")
      print(f"   - Routes: {camel}Routes.ts")
      print(f"   - API Client: {camel}.ts")
      print(f"   - Config: {camel}Config.tsx")
      print(f"   - Page: {kebab}/page.tsx")
      print(f"   - Layout: {kebab}/layout.tsx")
      if table['relationships']:
          print(f"   - Relationships: {len(table['relationships'])}")
      print()
  \<close>
  An exception of a conversion ends the loop before anything of that table is printed.
\<close>

fun tables_loop :: "table_config list \<Rightarrow> pystr list \<Rightarrow> pystr list \<times> error option" where
  "tables_loop [] out = (out, None)"
| "tables_loop (table # rest) out =
     (case to_camel_case (name table) of
        Inl e \<Rightarrow> (out, Some e)
      | Inr camel \<Rightarrow>
     (case to_pascal_case (name table) of
        Inl e \<Rightarrow> (out, Some e)
      | Inr pascal \<Rightarrow>
          let kebab = routePath table;
              out = out @ [[0x2705] @ str '' '' @ name table @ str '':''];
              out = out @ [str ''   - Types: '' @ pascal @ str ''.ts''];
              out = out @ [str ''   - Service: '' @ pascal @ str ''AirtableService.ts''];
              out = out @ [str ''   - Controller: '' @ pascal @ str ''Controller.ts''];
              out = out @ [str ''   - Routes: '' @ camel @ str ''Routes.ts''];
              out = out @ [str ''   - API Client: '' @ camel @ str ''.ts''];
              out = out @ [str ''   - Config: '' @ camel @ str ''Config.tsx''];
              out = out @ [str ''   - Page: '' @ kebab @ str ''/page.tsx''];
              out = out @ [str ''   - Layout: '' @ kebab @ str ''/layout.tsx''];
              out = (if relationships table \<noteq> []
                     then out @ [str ''   - Relationships: ''
                                 @ str_of_nat (length (relationships table))]
                     else out);
              out = out @ [[]]
          in tables_loop rest out))"

text \<open>
  The whole script: three lines of heading (the last one ends in a newline of its own),
  then the loop over \<open>TABLES\<close>.
\<close>

definition generate_all_tables :: "pystr list \<times> error option" where
  "generate_all_tables =
     tables_loop TABLES
       [[0x1F4CB] @ str '' Will generate files for '' @ str_of_nat (length TABLES) @ str '' tables'',
        str ''   Note: This script shows what will be generated. Actual file generation'',
        str ''   will be done manually to ensure proper relationship handling.'' @ [10]]"

text \<open>
  What the specification says the report of one table is: the heading of the table, the
  eight artifact lines in the order type, service, controller, routes, client API,
  config, page, layout, then the relationship count if there is a relationship, then
  the empty line. \<open>camel\<close> and \<open>pascal\<close> are the two forms of the display name and
  \<open>segment\<close> the route segment.
\<close>

definition artifact_lines :: "pystr \<Rightarrow> pystr \<Rightarrow> pystr \<Rightarrow> pystr list" where
  "artifact_lines pascal camel segment =
     [str ''   - Types: '' @ pascal @ str ''.ts'',
      str ''   - Service: '' @ pascal @ str ''AirtableService.ts'',
      str ''   - Controller: '' @ pascal @ str ''Controller.ts'',
      str ''   - Routes: '' @ camel @ str ''Routes.ts'',
      str ''   - API Client: '' @ camel @ str ''.ts'',
      str ''   - Config: '' @ camel @ str ''Config.tsx'',
      str ''   - Page: '' @ segment @ str ''/page.tsx'',
      str ''   - Layout: '' @ segment @ str ''/layout.tsx'']"

definition relationship_lines :: "relationship list \<Rightarrow> pystr list" where
  "relationship_lines rels =
     (if rels = [] then [] else [str ''   - Relationships: '' @ str_of_nat (length rels)])"

definition manifest_block :: "table_config \<Rightarrow> pystr list" where
  "manifest_block t =
     (case (to_pascal_case (name t), to_camel_case (name t)) of
        (Inr pascal, Inr camel) \<Rightarrow>
          [[0x2705] @ str '' '' @ name t @ str '':'']
          @ artifact_lines pascal camel (routePath t)
          @ relationship_lines (relationships t)
          @ [[]]
      | _ \<Rightarrow> [])"

section \<open>The schema extractor \<^verbatim>\<open>get_company_schema_detailed.py\<close>\<close>

subsection \<open>Decoded JSON\<close>

text \<open>
  What \<^verbatim>\<open>response.json()\<close> can return: \<^verbatim>\<open>None\<close>, a \<^verbatim>\<open>bool\<close>, an \<^verbatim>\<open>int\<close>, a
  \<^verbatim>\<open>float\<close> (an IEEE double, kept as its 64 bits), a \<^verbatim>\<open>str\<close>, a \<^verbatim>\<open>list\<close> or a
  \<^verbatim>\<open>dict\<close> with string keys. A \<^verbatim>\<open>dict\<close> is the list of its items in insertion
  order; a key is looked up from the front.
\<close>

datatype json =
    JNull
  | JBool bool
  | JInt int
  | JFloat "64 word"
  | JStr pystr
  | JArr "json list"
  | JObj "(pystr \<times> json) list"

text \<open>
  \<^verbatim>\<open>x.get(key, default)\<close>: only a \<^verbatim>\<open>dict\<close> has the method, every other decoded
  value raises \<^verbatim>\<open>AttributeError\<close>.
\<close>

fun py_get :: "json \<Rightarrow> pystr \<Rightarrow> json \<Rightarrow> error + json" where
  "py_get (JObj kvs) k d = Inr (case map_of kvs k of Some v \<Rightarrow> v | None \<Rightarrow> d)"
| "py_get _ k d = Inl AttributeError"

text \<open>
  \<^verbatim>\<open>for t in x\<close>: a list gives its elements, a \<^verbatim>\<open>dict\<close> its keys, a \<^verbatim>\<open>str\<close> its
  characters; the other values are not iterable.
\<close>

fun py_iter :: "json \<Rightarrow> error + json list" where
  "py_iter (JArr xs) = Inr xs"
| "py_iter (JObj kvs) = Inr (map JStr (remdups (map fst kvs)))"
| "py_iter (JStr s) = Inr (map (\<lambda>c. JStr [c]) s)"
| "py_iter _ = Inl TypeError"

text \<open>\<^verbatim>\<open>len(x)\<close>.\<close>

fun py_len :: "json \<Rightarrow> error + nat" where
  "py_len (JArr xs) = Inr (length xs)"
| "py_len (JObj kvs) = Inr (length (remdups (map fst kvs)))"
| "py_len (JStr s) = Inr (length s)"
| "py_len _ = Inl TypeError"

text \<open>The truth value of \<^verbatim>\<open>x\<close> in \<^verbatim>\<open>if x:\<close>; both zeros of a float are false.\<close>

fun truthy :: "json \<Rightarrow> bool" where
  "truthy JNull = False"
| "truthy (JBool b) = b"
| "truthy (JInt i) = (i \<noteq> 0)"
| "truthy (JFloat w) = (w \<noteq> 0 \<and> w \<noteq> 0x8000000000000000)"
| "truthy (JStr s) = (s \<noteq> [])"
| "truthy (JArr xs) = (xs \<noteq> [])"
| "truthy (JObj kvs) = (kvs \<noteq> [])"

subsection \<open>The request\<close>

definition COMPANY_TABLE_ID :: pystr where
  "COMPANY_TABLE_ID = str ''tbl82H6ezrakMSkV1''"

definition DIVISION_TABLE_ID :: pystr where
  "DIVISION_TABLE_ID = str ''tblLIRnxlCNotH2FY''"

text \<open>
  The response of \<^verbatim>\<open>requests.get(url, headers=headers)\<close>, as far as the script reads
  it: \<^verbatim>\<open>response.status_code\<close>, \<^verbatim>\<open>response.text\<close>, and what \<^verbatim>\<open>response.json()\<close>
  returns or raises. The request itself is outside the model: a run starts from the
  response that came back.
\<close>

record response =
  status_code :: int
  body_text :: pystr
  body_json :: "error + json"

text \<open>
  \<^verbatim>\<open>
  def get_all_tables():
      url = f'https://api.airtable.com/v0/meta/bases/{SYSTEM_CONFIG_BASE_ID}/tables'
      response = requests.get(url, headers=headers)

      if response.status_code == 200:
          return response.json().get('tables', [])
      else:
          print(f"Error fetching tables: {response.status_code} - {response.text}")
          return []
  \<close>
  The result is what the call printed and what it returned or raised.
\<close>

definition get_all_tables :: "response \<Rightarrow> pystr list \<times> (error + json)" where
  "get_all_tables response =
     (if status_code response = 200 then
        (case body_json response of
           Inl e \<Rightarrow> ([], Inl e)
         | Inr body \<Rightarrow> ([], py_get body (str ''tables'') (JArr [])))
      else
        ([str ''Error fetching tables: '' @ str_of_int (status_code response)
          @ str '' - '' @ body_text response],
         Inr (JArr [])))"

subsection \<open>The two tables\<close>

text \<open>
  \<^verbatim>\<open>next((t for t in all_tables if t.get('id') == WANTED), None)\<close>, on the elements
  that the iteration of \<^verbatim>\<open>all_tables\<close> gives: the generator is consumed up to the first
  element that passes the test, so an element behind it is never looked at. A value
  equals the wanted \<^verbatim>\<open>str\<close> only if it is that \<^verbatim>\<open>str\<close>.
\<close>

fun next_match :: "pystr \<Rightarrow> json list \<Rightarrow> error + json option" where
  "next_match wanted [] = Inr None"
| "next_match wanted (t # ts) =
     (case py_get t (str ''id'') JNull of
        Inl e \<Rightarrow> Inl e
      | Inr v \<Rightarrow> if v = JStr wanted then Inr (Some t) else next_match wanted ts)"

text \<open>\<^verbatim>\<open>json.dump\<close> writes \<^verbatim>\<open>None\<close> as \<^verbatim>\<open>null\<close>.\<close>

fun or_null :: "json option \<Rightarrow> json" where
  "or_null None = JNull"
| "or_null (Some t) = t"

subsection \<open>The script\<close>

text \<open>
  A run of the script: the strings printed, one for each call of \<^verbatim>\<open>print\<close>; the value
  that \<^verbatim>\<open>json.dump\<close> wrote to \<^verbatim>\<open>docs/company-table-schema-detailed.json\<close>, if it
  wrote all of it (\<open>None\<close>: the file is untouched, or was opened and holds at most a
  beginning of the text); the exception that ended the run, if any. The file system is
  outside the model: the directory \<^verbatim>\<open>docs\<close> is taken to exist and the file to be
  writable.
\<close>

record run =
  console :: "pystr list"
  dumped :: "json option"
  raised :: "error option"

text \<open>
  \<^verbatim>\<open>
  if company_table:
      print(f"Company table: {company_table.get('name')} - {len(company_table.get('fields', []))} fields")
      print(f"  Table ID: {company_table.get('id')}")
      print(f"  Primary Field ID: {company_table.get('primaryFieldId')}")
  \<close>
  \<open>py_str\<close> is the text that an f-string puts for a decoded value (Python's
  \<^verbatim>\<open>str\<close>): a parameter of the model.
\<close>

definition name_and_fields ::
  "(json \<Rightarrow> pystr) \<Rightarrow> pystr \<Rightarrow> json \<Rightarrow> error + pystr" where
  "name_and_fields py_str label t =
     (case py_get t (str ''name'') JNull of
        Inl e \<Rightarrow> Inl e
      | Inr nm \<Rightarrow>
     (case py_get t (str ''fields'') (JArr []) of
        Inl e \<Rightarrow> Inl e
      | Inr fs \<Rightarrow>
     (case py_len fs of
        Inl e \<Rightarrow> Inl e
      | Inr n \<Rightarrow> Inr (label @ py_str nm @ str '' - '' @ str_of_nat n @ str '' fields''))))"

definition labelled :: "(json \<Rightarrow> pystr) \<Rightarrow> pystr \<Rightarrow> pystr \<Rightarrow> json \<Rightarrow> error + pystr" where
  "labelled py_str label key t =
     (case py_get t key JNull of Inl e \<Rightarrow> Inl e | Inr v \<Rightarrow> Inr (label @ py_str v))"

definition company_summary ::
  "(json \<Rightarrow> pystr) \<Rightarrow> json option \<Rightarrow> pystr list \<Rightarrow> pystr list \<times> error option" where
  "company_summary py_str company_table out =
     (case company_table of
        None \<Rightarrow> (out, None)
      | Some t \<Rightarrow>
          if \<not> truthy t then (out, None)
          else
            (case name_and_fields py_str (str ''Company table: '') t of
               Inl e \<Rightarrow> (out, Some e)
             | Inr l1 \<Rightarrow>
            (case labelled py_str (str ''  Table ID: '') (str ''id'') t of
               Inl e \<Rightarrow> (out @ [l1], Some e)
             | Inr l2 \<Rightarrow>
            (case labelled py_str (str ''  Primary Field ID: '') (str ''primaryFieldId'') t of
               Inl e \<Rightarrow> (out @ [l1, l2], Some e)
             | Inr l3 \<Rightarrow> (out @ [l1, l2, l3], None)))))"

text \<open>
  \<^verbatim>\<open>
  if division_table:
      print(f"Division table: {division_table.get('name')} - {len(division_table.get('fields', []))} fields")
      print(f"  Table ID: {division_table.get('id')}")
  \<close>
\<close>

definition division_summary ::
  "(json \<Rightarrow> pystr) \<Rightarrow> json option \<Rightarrow> pystr list \<Rightarrow> pystr list \<times> error option" where
  "division_summary py_str division_table out =
     (case division_table of
        None \<Rightarrow> (out, None)
      | Some t \<Rightarrow>
          if \<not> truthy t then (out, None)
          else
            (case name_and_fields py_str (str ''Division table: '') t of
               Inl e \<Rightarrow> (out, Some e)
             | Inr l1 \<Rightarrow>
            (case labelled py_str (str ''  Table ID: '') (str ''id'') t of
               Inl e \<Rightarrow> (out @ [l1], Some e)
             | Inr l2 \<Rightarrow> (out @ [l1, l2], None))))"

text \<open>
  The file is opened with \<^verbatim>\<open>encoding='utf-8'\<close> and the text is written with
  \<^verbatim>\<open>ensure_ascii=False\<close>, so every string of the value, keys included, goes to the
  encoder as it is. UTF-8 has no encoding for a surrogate code point (a decoded body has
  one where the JSON text had an unpaired \<^verbatim>\<open>\ud800\<close> to \<^verbatim>\<open>\udfff\<close> escape): writing it
  raises \<^verbatim>\<open>UnicodeEncodeError\<close>.
\<close>

definition is_surrogate :: "pychar \<Rightarrow> bool" where
  "is_surrogate c = (0xD800 \<le> c \<and> c \<le> 0xDFFF)"

fun encodable :: "json \<Rightarrow> bool" where
  "encodable (JStr s) = (\<forall>c\<in>set s. \<not> is_surrogate c)"
| "encodable (JArr xs) = (\<forall>x\<in>set xs. encodable x)"
| "encodable (JObj kvs) =
     (\<forall>kv\<in>set kvs. (\<forall>c\<in>set (fst kv). \<not> is_surrogate c) \<and> encodable (snd kv))"
| "encodable _ = True"

text \<open>\<^verbatim>\<open>output = {'company': company_table, 'division': division_table}\<close>\<close>

definition output_dict :: "json option \<Rightarrow> json option \<Rightarrow> json" where
  "output_dict company_table division_table =
     JObj [(str ''company'', or_null company_table), (str ''division'', or_null division_table)]"

text \<open>
  \<^verbatim>\<open>
  all_tables = get_all_tables()
  company_table = next((t for t in all_tables if t.get('id') == COMPANY_TABLE_ID), None)
  division_table = next((t for t in all_tables if t.get('id') == DIVISION_TABLE_ID), None)
  output = {'company': company_table, 'division': division_table}
  with open('docs/company-table-schema-detailed.json', 'w', encoding='utf-8') as f:
      json.dump(output, f, indent=2, ensure_ascii=False)
  print("Company table schema extracted successfully!")
  \<close>
  and the two summaries. An exception before \<^verbatim>\<open>open\<close> leaves the file untouched; one
  of \<^verbatim>\<open>json.dump\<close> leaves it with a beginning of the text and ends the run before
  anything more is printed; one in a summary comes after the file is complete.
\<close>

definition extract_schema :: "(json \<Rightarrow> pystr) \<Rightarrow> response \<Rightarrow> run" where
  "extract_schema py_str response =
     (case get_all_tables response of
        (out, Inl e) \<Rightarrow> \<lparr>console = out, dumped = None, raised = Some e\<rparr>
      | (out, Inr all_tables) \<Rightarrow>
     (case py_iter all_tables of
        Inl e \<Rightarrow> \<lparr>console = out, dumped = None, raised = Some e\<rparr>
      | Inr ts \<Rightarrow>
     (case next_match COMPANY_TABLE_ID ts of
        Inl e \<Rightarrow> \<lparr>console = out, dumped = None, raised = Some e\<rparr>
      | Inr company_table \<Rightarrow>
     (case next_match DIVISION_TABLE_ID ts of
        Inl e \<Rightarrow> \<lparr>console = out, dumped = None, raised = Some e\<rparr>
      | Inr division_table \<Rightarrow>
          let output = output_dict company_table division_table in
          if \<not> encodable output
          then \<lparr>console = out, dumped = None, raised = Some UnicodeEncodeError\<rparr>
          else
            let out = out @ [str ''Company table schema extracted successfully!''] in
            (case company_summary py_str company_table out of
               (out, Some e) \<Rightarrow> \<lparr>console = out, dumped = Some output, raised = Some e\<rparr>
             | (out, None) \<Rightarrow>
                 let (out, r) = division_summary py_str division_table out
                 in \<lparr>console = out, dumped = Some output, raised = r\<rparr>)))))"

section \<open>Notions used to state the properties\<close>

text \<open>The hyphen, the lowercase letters and digits, and the uppercase letters of ASCII.\<close>

definition hyphen :: pychar where
  "hyphen = of_char CHR ''-''"

definition is_lower_alnum :: "pychar \<Rightarrow> bool" where
  "is_lower_alnum c = ((97 \<le> c \<and> c \<le> 122) \<or> (48 \<le> c \<and> c \<le> 57))"

definition is_upper :: "pychar \<Rightarrow> bool" where
  "is_upper c = (65 \<le> c \<and> c \<le> 90)"

text \<open>
  The camel form as the specification words it: the first word in lowercase, every later
  word with its first letter in uppercase and the rest of the word as it stands in the
  input. It is compared with \<open>to_camel_case\<close> below.
\<close>

definition camel_rest_preserved :: "pystr list \<Rightarrow> pystr" where
  "camel_rest_preserved ws =
     map lower_char (hd ws) @ concat (map (\<lambda>w. upper_char (hd w) # tl w) (tl ws))"

text \<open>
  A schema object is a \<^verbatim>\<open>dict\<close>; it has the wanted identifier if its \<^verbatim>\<open>id\<close> is that
  string, which is the test of the generator expressions.
\<close>

fun is_dict :: "json \<Rightarrow> bool" where
  "is_dict (JObj kvs) = True"
| "is_dict _ = False"

definition has_id :: "pystr \<Rightarrow> json \<Rightarrow> bool" where
  "has_id wanted t = (py_get t (str ''id'') JNull = Inr (JStr wanted))"

text \<open>The dumped value when neither table is found.\<close>

definition null_output :: json where
  "null_output = JObj [(str ''company'', JNull), (str ''division'', JNull)]"

text \<open>
  Responses and schema objects for the examples: a success with status 200 and a given
  decoded body, a 201 whose body has a table list, a 403 whose body is not JSON; two
  tables with the company identifier, one with the division identifier, one with neither.
\<close>

definition response_200 :: "json \<Rightarrow> response" where
  "response_200 body = \<lparr>status_code = 200, body_text = [], body_json = Inr body\<rparr>"

definition response_201 :: response where
  "response_201 =
     \<lparr>status_code = 201, body_text = str ''created'',
      body_json = Inr (JObj [(str ''tables'', JArr [JObj [(str ''id'', JStr COMPANY_TABLE_ID)]])])\<rparr>"

definition response_403 :: response where
  "response_403 =
     \<lparr>status_code = 403, body_text = str ''forbidden'', body_json = Inl JSONDecodeError\<rparr>"

definition company_a :: json where
  "company_a = JObj [(str ''id'', JStr COMPANY_TABLE_ID), (str ''name'', JStr (str ''Company''))]"

definition company_b :: json where
  "company_b = JObj [(str ''id'', JStr COMPANY_TABLE_ID), (str ''name'', JStr (str ''Copy''))]"

definition division_a :: json where
  "division_a = JObj [(str ''id'', JStr DIVISION_TABLE_ID), (str ''name'', JStr (str ''Division''))]"

definition other_a :: json where
  "other_a = JObj [(str ''id'', JStr (str ''tblOther'')), (str ''name'', JStr (str ''Other''))]"

text \<open>A table with the company identifier whose name is a lone surrogate.\<close>

definition company_surrogate :: json where
  "company_surrogate = JObj [(str ''id'', JStr COMPANY_TABLE_ID), (str ''name'', JStr [0xD800])]"

section \<open>Words of a display name\<close>

lemma py_split_Nil: "dropWhile is_space s = [] \<Longrightarrow> py_split s = []"
  by (subst py_split.simps) simp

lemma py_split_Cons:
  "dropWhile is_space s \<noteq> [] \<Longrightarrow>
   py_split s = takeWhile (\<lambda>c. \<not> is_space c) (dropWhile is_space s)
                # py_split (dropWhile (\<lambda>c. \<not> is_space c) (dropWhile is_space s))"
  by (subst py_split.simps) (simp add: Let_def)

lemma py_split_words:
  "w \<in> set (py_split s) \<Longrightarrow> w \<noteq> [] \<and> (\<forall>c\<in>set w. c \<in> set s \<and> \<not> is_space c)"
proof (induction s rule: py_split.induct)
  case (1 s)
  define r where "r = dropWhile is_space s"
  show ?case
  proof (cases "r = []")
    case True
    with 1(2) show ?thesis
      by (simp add: py_split_Nil r_def)
  next
    case False
    let ?t = "takeWhile (\<lambda>c. \<not> is_space c) r"
    let ?d = "dropWhile (\<lambda>c. \<not> is_space c) r"
    from False have "py_split s = ?t # py_split ?d"
      unfolding r_def by (rule py_split_Cons)
    with 1(2) have w: "w = ?t \<or> w \<in> set (py_split ?d)"
      by simp
    have sub: "set r \<subseteq> set s"
      unfolding r_def by (auto dest: set_dropWhileD)
    from w show ?thesis
    proof
      assume eq: "w = ?t"
      from False have "\<not> is_space (hd r)"
        unfolding r_def by (rule hd_dropWhile)
      with False have "?t \<noteq> []"
        by (simp add: takeWhile_eq_Nil_iff)
      moreover have "\<forall>c\<in>set ?t. c \<in> set s \<and> \<not> is_space c"
        using sub by (auto dest: set_takeWhileD)
      ultimately show ?thesis using eq by simp
    next
      assume "w \<in> set (py_split ?d)"
      with 1(1) [OF r_def False] have "w \<noteq> [] \<and> (\<forall>c\<in>set w. c \<in> set ?d \<and> \<not> is_space c)"
        by simp
      moreover have "set ?d \<subseteq> set s"
        using sub by (auto dest: set_dropWhileD)
      ultimately show ?thesis by blast
    qed
  qed
qed

lemma py_split_Nil_iff: "py_split s = [] \<longleftrightarrow> (\<forall>c\<in>set s. is_space c)"
  by (cases "dropWhile is_space s = []") (auto simp: py_split_Nil py_split_Cons)

lemma re_sub_strip_set: "set (re_sub_strip s) = {c \<in> set s. is_alnum c \<or> is_space c}"
  by (simp add: re_sub_strip_def)

lemma words_alnum:
  assumes "w \<in> set (py_split (re_sub_strip s))"
  shows "w \<noteq> [] \<and> (\<forall>c\<in>set w. is_alnum c \<and> c \<in> set s)"
  using py_split_words [OF assms] by (auto simp: re_sub_strip_set)

lemma alnum_not_space: "is_alnum c \<Longrightarrow> \<not> is_space c"
  by (auto simp: is_alnum_def is_space_def)

lemma no_words_iff: "py_split (re_sub_strip s) = [] \<longleftrightarrow> (\<forall>c\<in>set s. \<not> is_alnum c)"
  by (auto simp: py_split_Nil_iff re_sub_strip_set dest: alnum_not_space)

lemma lower_char_alnum: "is_alnum c \<Longrightarrow> is_lower_alnum (lower_char c)"
  by (auto simp: is_alnum_def is_lower_alnum_def lower_char_def)

lemma lower_alnum_plain:
  "is_lower_alnum c \<Longrightarrow> \<not> is_upper c \<and> \<not> is_space c \<and> c \<noteq> hyphen"
  by (auto simp: is_lower_alnum_def is_upper_def is_space_def hyphen_def)

lemma hyphen_plain: "\<not> is_upper hyphen \<and> \<not> is_space hyphen"
  by (simp add: is_upper_def is_space_def hyphen_def)

lemma str_hyphen: "str ''-'' = [hyphen]"
  by (simp add: str_def hyphen_def)

lemma join_empty_sep: "join [] ws = concat ws"
  by (induction ws rule: induct_list012) simp_all

lemma join_Nil_iff: "\<forall>w\<in>set ws. w \<noteq> [] \<Longrightarrow> join sep ws = [] \<longleftrightarrow> ws = []"
  by (induction sep ws rule: join.induct) simp_all

lemma set_join: "c \<in> set (join sep ws) \<Longrightarrow> c \<in> set sep \<or> (\<exists>w\<in>set ws. c \<in> set w)"
  by (induction sep ws rule: join.induct) auto

lemma hd_join: "\<forall>w\<in>set ws. w \<noteq> [] \<Longrightarrow> ws \<noteq> [] \<Longrightarrow> hd (join sep ws) = hd (hd ws)"
  by (induction sep ws rule: join.induct) simp_all

lemma last_join: "\<forall>w\<in>set ws. w \<noteq> [] \<Longrightarrow> ws \<noteq> [] \<Longrightarrow> last (join sep ws) = last (last ws)"
proof (induction sep ws rule: join.induct)
  case (3 sep w v ws)
  then have "join sep (v # ws) \<noteq> []"
    by (simp add: join_Nil_iff)
  with 3 show ?case by simp
qed simp_all

lemma successively_free:
  "h \<notin> set w \<Longrightarrow> successively (\<lambda>a b. \<not> (a = h \<and> b = h)) w"
  by (induction w) (auto simp: successively_Cons)

lemma successively_join:
  assumes "\<forall>w\<in>set ws. w \<noteq> [] \<and> successively P w \<and> P (last w) h \<and> P h (hd w)"
  shows "successively P (join [h] ws)"
  using assms
proof (induction ws rule: induct_list012)
  case 1
  show ?case by simp
next
  case (2 w)
  then show ?case by simp
next
  case (3 w v ws)
  have nonempty: "\<forall>u\<in>set (v # ws). u \<noteq> []"
    using 3(3) by simp
  have "hd (join [h] (v # ws)) = hd v"
    using hd_join [OF nonempty] by simp
  moreover have "join [h] (v # ws) \<noteq> []"
    using join_Nil_iff [OF nonempty] by simp
  moreover have "successively P (join [h] (v # ws))"
    using 3 by simp
  moreover have "successively P w" "w \<noteq> []" "P (last w) h" "P h (hd v)"
    using 3(3) by simp_all
  ultimately show ?case
    by (simp add: successively_append_iff successively_Cons)
qed

lemma hyphen_free_word:
  assumes "w \<noteq> []" "h \<notin> set w"
  shows "successively (\<lambda>a b. \<not> (a = h \<and> b = h)) w \<and> last w \<noteq> h \<and> hd w \<noteq> h"
proof -
  from assms have "last w \<in> set w" "hd w \<in> set w"
    by simp_all
  with assms(2) have "last w \<noteq> h" "hd w \<noteq> h"
    by auto
  with successively_free [OF assms(2)] show ?thesis
    by blast
qed

lemma successively_nth:
  "successively P xs \<Longrightarrow> Suc i < length xs \<Longrightarrow> P (xs ! i) (xs ! Suc i)"
proof (induction P xs arbitrary: i rule: successively.induct)
  case (3 P x y xs)
  then show ?case by (cases i) simp_all
qed simp_all

lemma capitalize_word: "w \<noteq> [] \<Longrightarrow> capitalize w = upper_char (hd w) # map lower_char (tl w)"
  by (cases w) simp_all

text \<open>Unfolding the conversions on a given string.\<close>

lemmas conv_eval =
  to_camel_case_def to_pascal_case_def to_kebab_case_def str_def re_sub_strip_def
  py_split.simps is_space_def is_alnum_def lower_def upper_def lower_char_def upper_char_def

section \<open>Display names without a word\<close>

text \<open>
  A display name with no letter and no digit has no word, and \<^verbatim>\<open>words[0]\<close> raises:
  \<open>to_camel_case\<close> ends in \<^verbatim>\<open>IndexError\<close>, and so does \<open>to_pascal_case\<close>, which
  gets no value to test. The test \<^verbatim>\<open>if camel\<close> of \<open>to_pascal_case\<close> never fails on a
  value that \<open>to_camel_case\<close> returned.
\<close>

lemma zero_tokens_raise:
  "py_split (re_sub_strip s) = [] \<Longrightarrow>
   to_camel_case s = Inl IndexError \<and> to_pascal_case s = Inl IndexError"
  by (simp add: to_camel_case_def to_pascal_case_def)

lemma camel_never_empty: "to_camel_case s = Inr camel \<Longrightarrow> camel \<noteq> []"
proof -
  assume r: "to_camel_case s = Inr camel"
  then obtain w ws where ws: "py_split (re_sub_strip s) = w # ws"
    by (cases "py_split (re_sub_strip s)") (auto simp: to_camel_case_def)
  then have "w \<noteq> []"
    using py_split_words [of w "re_sub_strip s"] by simp
  with r ws show ?thesis
    by (auto simp: to_camel_case_def lower_def)
qed

lemma pascal_of_camel:
  assumes "to_camel_case s = Inr camel"
  shows "to_pascal_case s = Inr (upper_char (hd camel) # tl camel)"
  using camel_never_empty [OF assms] assms
  by (simp add: to_pascal_case_def upper_def drop_Suc)

text \<open>
  C1. A display name of disallowed punctuation only, or of whitespace only, has no word:
  \<open>to_camel_case\<close> and \<open>to_pascal_case\<close> do not return the empty string there, both
  raise \<^verbatim>\<open>IndexError\<close>.
\<close>

theorem camel_zero_tokens_raises:
  "to_camel_case (str ''&/'') = Inl IndexError
   \<and> to_pascal_case (str ''&/'') = Inl IndexError
   \<and> to_camel_case (str ''   '') = Inl IndexError
   \<and> to_pascal_case (str ''   '') = Inl IndexError"
  by (simp add: conv_eval)

text \<open>
  C5. On the empty string \<open>to_pascal_case\<close> does not return the empty string: the call of
  \<open>to_camel_case\<close> raises \<^verbatim>\<open>IndexError\<close> before the guard \<^verbatim>\<open>if camel\<close> is reached.
  (Where \<open>to_camel_case\<close> returns, \<open>to_pascal_case\<close> is its result with the first
  character in uppercase: lemma \<open>pascal_of_camel\<close>.)
\<close>

theorem pascal_empty_input_raises:
  "to_camel_case [] = Inl IndexError \<and> to_pascal_case [] = Inl IndexError"
  by (simp add: conv_eval)

section \<open>The camel form\<close>

text \<open>
  C2, as the specification words it, fails: \<^verbatim>\<open>capitalize\<close> puts the rest of a word in
  lowercase. \<^verbatim>\<open>Scope ID\<close> becomes \<^verbatim>\<open>scopeId\<close>, not \<^verbatim>\<open>scopeID\<close>.
\<close>

theorem camel_rest_lowered_counterexample:
  "2 \<le> length (py_split (re_sub_strip (str ''Scope ID'')))
   \<and> to_camel_case (str ''Scope ID'') = Inr (str ''scopeId'')
   \<and> camel_rest_preserved (py_split (re_sub_strip (str ''Scope ID''))) = str ''scopeID''
   \<and> to_camel_case (str ''Scope ID'')
       \<noteq> Inr (camel_rest_preserved (py_split (re_sub_strip (str ''Scope ID''))))"
  by (simp add: conv_eval camel_rest_preserved_def)

text \<open>
  C2, as the code has it: for a display name of two or more words, \<open>to_camel_case\<close>
  returns the first word in lowercase followed, without separator, by every later word
  with its first character in uppercase and its other characters in lowercase.
\<close>

theorem to_camel_case_words:
  assumes "2 \<le> length (py_split (re_sub_strip s))"
  shows "to_camel_case s =
     Inr (map lower_char (hd (py_split (re_sub_strip s)))
          @ concat (map (\<lambda>w. upper_char (hd w) # map lower_char (tl w))
                        (tl (py_split (re_sub_strip s)))))"
proof -
  from assms obtain w ws where ws: "py_split (re_sub_strip s) = w # ws"
    by (cases "py_split (re_sub_strip s)") auto
  have "\<forall>v\<in>set ws. v \<noteq> []"
    using py_split_words [of _ "re_sub_strip s"] ws by simp
  then have "map capitalize ws = map (\<lambda>w. upper_char (hd w) # map lower_char (tl w)) ws"
    by (simp add: capitalize_word)
  then have "join [] (map capitalize ws)
      = concat (map (\<lambda>w. upper_char (hd w) # map lower_char (tl w)) ws)"
    by (simp only: join_empty_sep)
  then show ?thesis
    by (simp add: to_camel_case_def ws lower_def)
qed

theorem to_camel_case_words_witness:
  "2 \<le> length (py_split (re_sub_strip (str ''EF/Detailed G'')))
   \<and> to_camel_case (str ''EF/Detailed G'') = Inr (str ''efdetailedG'')"
  using to_camel_case_words [of "str ''EF/Detailed G''"]
  by (simp add: conv_eval)

text \<open>C6. The camel form of \<^verbatim>\<open>Standard ECM catalog\<close> is \<^verbatim>\<open>standardEcmCatalog\<close>.\<close>

theorem camel_standard_ecm_catalog:
  "to_camel_case (str ''Standard ECM catalog'') = Inr (str ''standardEcmCatalog'')"
  by (simp add: conv_eval)

section \<open>The kebab form\<close>

text \<open>
  C3, as the specification words it, fails: the slash is deleted, not replaced by a
  separator, so \<^verbatim>\<open>EF\<close> and \<^verbatim>\<open>Detailed\<close> are one word.
\<close>

theorem kebab_ef_detailed_g_counterexample:
  "to_kebab_case (str ''EF/Detailed G'') \<noteq> str ''ef-detailed-g''"
  by (simp add: conv_eval)

text \<open>C3, as the code has it: the kebab form of \<^verbatim>\<open>EF/Detailed G\<close> is \<^verbatim>\<open>efdetailed-g\<close>.\<close>

theorem kebab_ef_detailed_g:
  "to_kebab_case (str ''EF/Detailed G'') = str ''efdetailed-g''"
  by (simp add: conv_eval)

text \<open>
  C10. \<open>to_kebab_case\<close> is a total function: nothing in it raises. Its result is a list
  of non-empty words of lowercase letters and digits joined by one hyphen each; so it
  has no uppercase letter and no whitespace, neither begins nor ends with a hyphen, has
  no two hyphens in a row, and is empty exactly when the input has no character of
  \<^verbatim>\<open>[a-zA-Z0-9]\<close>.
\<close>

theorem to_kebab_case_shape:
  "(\<exists>ws. to_kebab_case s = join [hyphen] ws
          \<and> (\<forall>w\<in>set ws. w \<noteq> [] \<and> (\<forall>c\<in>set w. is_lower_alnum c)))
   \<and> (\<forall>c\<in>set (to_kebab_case s).
        (is_lower_alnum c \<or> c = hyphen) \<and> \<not> is_upper c \<and> \<not> is_space c)
   \<and> (to_kebab_case s \<noteq> [] \<longrightarrow>
        hd (to_kebab_case s) \<noteq> hyphen \<and> last (to_kebab_case s) \<noteq> hyphen)
   \<and> (\<forall>i. Suc i < length (to_kebab_case s) \<longrightarrow>
        \<not> (to_kebab_case s ! i = hyphen \<and> to_kebab_case s ! Suc i = hyphen))
   \<and> (to_kebab_case s = [] \<longleftrightarrow> (\<forall>c\<in>set s. \<not> is_alnum c))"
proof -
  define ws where "ws = map lower (py_split (re_sub_strip s))"
  have k: "to_kebab_case s = join [hyphen] ws"
    by (simp add: to_kebab_case_def ws_def str_hyphen)
  have words: "\<forall>w\<in>set ws. w \<noteq> [] \<and> (\<forall>c\<in>set w. is_lower_alnum c)"
    unfolding ws_def lower_def by (auto dest!: words_alnum intro: lower_char_alnum)
  then have nonempty: "\<forall>w\<in>set ws. w \<noteq> []"
    and free: "\<forall>w\<in>set ws. w \<noteq> [] \<and> hyphen \<notin> set w"
    by (auto dest: lower_alnum_plain)
  have shape: "\<exists>ws. to_kebab_case s = join [hyphen] ws
          \<and> (\<forall>w\<in>set ws. w \<noteq> [] \<and> (\<forall>c\<in>set w. is_lower_alnum c))"
    using k words by blast
  have chars: "\<forall>c\<in>set (to_kebab_case s).
        (is_lower_alnum c \<or> c = hyphen) \<and> \<not> is_upper c \<and> \<not> is_space c"
  proof
    fix c assume "c \<in> set (to_kebab_case s)"
    then have "c = hyphen \<or> (\<exists>w\<in>set ws. c \<in> set w)"
      unfolding k by (auto dest: set_join)
    then show "(is_lower_alnum c \<or> c = hyphen) \<and> \<not> is_upper c \<and> \<not> is_space c"
      using words hyphen_plain lower_alnum_plain by blast
  qed
  have ends: "to_kebab_case s \<noteq> [] \<longrightarrow>
        hd (to_kebab_case s) \<noteq> hyphen \<and> last (to_kebab_case s) \<noteq> hyphen"
  proof
    assume "to_kebab_case s \<noteq> []"
    then have ne: "ws \<noteq> []"
      unfolding k by auto
    then have "hd ws \<in> set ws" "last ws \<in> set ws"
      by simp_all
    with free have "hd (hd ws) \<noteq> hyphen" "last (last ws) \<noteq> hyphen"
      using hyphen_free_word [of "hd ws" hyphen] hyphen_free_word [of "last ws" hyphen]
      by blast+
    then show "hd (to_kebab_case s) \<noteq> hyphen \<and> last (to_kebab_case s) \<noteq> hyphen"
      unfolding k by (simp add: hd_join [OF nonempty ne] last_join [OF nonempty ne])
  qed
  have pairs: "\<forall>i. Suc i < length (to_kebab_case s) \<longrightarrow>
        \<not> (to_kebab_case s ! i = hyphen \<and> to_kebab_case s ! Suc i = hyphen)"
  proof -
    have "\<forall>w\<in>set ws. w \<noteq> [] \<and> successively (\<lambda>a b. \<not> (a = hyphen \<and> b = hyphen)) w
            \<and> \<not> (last w = hyphen \<and> hyphen = hyphen) \<and> \<not> (hyphen = hyphen \<and> hd w = hyphen)"
      using free hyphen_free_word [of _ hyphen] by blast
    then have "successively (\<lambda>a b. \<not> (a = hyphen \<and> b = hyphen)) (join [hyphen] ws)"
      by (rule successively_join)
    then show ?thesis
      unfolding k using successively_nth by blast
  qed
  have empty: "to_kebab_case s = [] \<longleftrightarrow> (\<forall>c\<in>set s. \<not> is_alnum c)"
    unfolding k using join_Nil_iff [OF nonempty, of "[hyphen]"]
    by (simp add: ws_def no_words_iff)
  from shape chars ends pairs empty show ?thesis by blast
qed

theorem to_kebab_case_shape_witness:
  "to_kebab_case (str ''Unit  Conversion (v2)'') = str ''unit-conversion-v2''
   \<and> hd (to_kebab_case (str ''Unit  Conversion (v2)'')) \<noteq> hyphen
   \<and> last (to_kebab_case (str ''Unit  Conversion (v2)'')) \<noteq> hyphen
   \<and> is_alnum (hd (str ''Unit  Conversion (v2)''))"
  using to_kebab_case_shape [of "str ''Unit  Conversion (v2)''"]
  by (simp add: conv_eval hyphen_def)

section \<open>The manifest\<close>

text \<open>
  A display name with a word has both forms, and the pass of the loop for its table
  appends the block of that table to the console.
\<close>

lemma words_camel_pascal:
  assumes "py_split (re_sub_strip s) \<noteq> []"
  shows "\<exists>camel pascal. to_camel_case s = Inr camel \<and> to_pascal_case s = Inr pascal"
proof -
  from assms obtain w ws where "py_split (re_sub_strip s) = w # ws"
    by (cases "py_split (re_sub_strip s)") auto
  then show ?thesis
    by (simp add: to_camel_case_def to_pascal_case_def)
qed

lemma tables_loop_step:
  assumes "py_split (re_sub_strip (name t)) \<noteq> []"
  shows "tables_loop (t # rest) out = tables_loop rest (out @ manifest_block t)"
proof -
  from words_camel_pascal [OF assms] obtain camel pascal
    where c: "to_camel_case (name t) = Inr camel" and p: "to_pascal_case (name t) = Inr pascal"
    by blast
  show ?thesis
    by (simp add: c p manifest_block_def artifact_lines_def relationship_lines_def Let_def)
qed

lemma TABLES_words: "\<forall>t\<in>set TABLES. py_split (re_sub_strip (name t)) \<noteq> []"
  by (simp add: TABLES_def) (simp add: conv_eval)

lemmas manifest_eval =
  manifest_block_def artifact_lines_def relationship_lines_def TABLES_def str_of_nat.simps

text \<open>
  C7. For a list of tables whose display names all have a word (as the eight of
  \<open>TABLES\<close> do), the loop prints the blocks of the tables in the order of the list and
  ends without an exception. The block of a table is its heading, then the lines for
  type, service, controller, routes, client API, config, page and layout in this order,
  the first three from the pascal form, the next three from the camel form, the last two
  from \<open>routePath\<close> as it stands; then the line with the number of relationships if and
  only if there is one; then the empty line.
\<close>

theorem tables_loop_manifest:
  assumes "\<forall>t\<in>set ts. py_split (re_sub_strip (name t)) \<noteq> []"
  shows "tables_loop ts out = (out @ concat (map manifest_block ts), None)"
  using assms
proof (induction ts arbitrary: out)
  case Nil
  show ?case by simp
next
  case (Cons t ts)
  then have "py_split (re_sub_strip (name t)) \<noteq> []"
    by simp
  then have "tables_loop (t # ts) out = tables_loop ts (out @ manifest_block t)"
    by (rule tables_loop_step)
  also have "\<dots> = ((out @ manifest_block t) @ concat (map manifest_block ts), None)"
    using Cons by simp
  finally show ?case by simp
qed

text \<open>
  The run of the script on \<open>TABLES\<close>, and two of its blocks: \<^verbatim>\<open>EF/Detailed G\<close> with
  three relationships, whose route segment \<^verbatim>\<open>ef-detailed-g\<close> is not the kebab form of
  its name, and \<^verbatim>\<open>Scope\<close> with none.
\<close>

theorem tables_loop_manifest_witness:
  "generate_all_tables =
     ([[0x1F4CB] @ str '' Will generate files for 8 tables'',
       str ''   Note: This script shows what will be generated. Actual file generation'',
       str ''   will be done manually to ensure proper relationship handling.'' @ [10]]
      @ concat (map manifest_block TABLES), None)
   \<and> manifest_block (TABLES ! 1) =
      [[0x2705] @ str '' EF/Detailed G:'',
       str ''   - Types: EfdetailedG.ts'',
       str ''   - Service: EfdetailedGAirtableService.ts'',
       str ''   - Controller: EfdetailedGController.ts'',
       str ''   - Routes: efdetailedGRoutes.ts'',
       str ''   - API Client: efdetailedG.ts'',
       str ''   - Config: efdetailedGConfig.tsx'',
       str ''   - Page: ef-detailed-g/page.tsx'',
       str ''   - Layout: ef-detailed-g/layout.tsx'',
       str ''   - Relationships: 3'',
       []]
   \<and> manifest_block (TABLES ! 2) =
      [[0x2705] @ str '' Scope:'',
       str ''   - Types: Scope.ts'',
       str ''   - Service: ScopeAirtableService.ts'',
       str ''   - Controller: ScopeController.ts'',
       str ''   - Routes: scopeRoutes.ts'',
       str ''   - API Client: scope.ts'',
       str ''   - Config: scopeConfig.tsx'',
       str ''   - Page: scope/page.tsx'',
       str ''   - Layout: scope/layout.tsx'',
       []]"
proof -
  have "length TABLES = 8"
    by (simp add: TABLES_def)
  then have heading: "str_of_nat (length TABLES) = str ''8''"
    by (simp add: str_of_nat.simps str_def)
  have run: "generate_all_tables =
     ([[0x1F4CB] @ str '' Will generate files for 8 tables'',
       str ''   Note: This script shows what will be generated. Actual file generation'',
       str ''   will be done manually to ensure proper relationship handling.'' @ [10]]
      @ concat (map manifest_block TABLES), None)"
    unfolding generate_all_tables_def heading
    using tables_loop_manifest [OF TABLES_words] by (simp add: str_def)
  have ef: "manifest_block (TABLES ! 1) =
      [[0x2705] @ str '' EF/Detailed G:'',
       str ''   - Types: EfdetailedG.ts'',
       str ''   - Service: EfdetailedGAirtableService.ts'',
       str ''   - Controller: EfdetailedGController.ts'',
       str ''   - Routes: efdetailedGRoutes.ts'',
       str ''   - API Client: efdetailedG.ts'',
       str ''   - Config: efdetailedGConfig.tsx'',
       str ''   - Page: ef-detailed-g/page.tsx'',
       str ''   - Layout: ef-detailed-g/layout.tsx'',
       str ''   - Relationships: 3'',
       []]"
    by (simp add: manifest_eval conv_eval)
  have scope: "manifest_block (TABLES ! 2) =
      [[0x2705] @ str '' Scope:'',
       str ''   - Types: Scope.ts'',
       str ''   - Service: ScopeAirtableService.ts'',
       str ''   - Controller: ScopeController.ts'',
       str ''   - Routes: scopeRoutes.ts'',
       str ''   - API Client: scope.ts'',
       str ''   - Config: scopeConfig.tsx'',
       str ''   - Page: scope/page.tsx'',
       str ''   - Layout: scope/layout.tsx'',
       []]"
    by (simp add: manifest_eval conv_eval)
  from run ef scope show ?thesis by blast
qed

section \<open>Fetching the table list\<close>

text \<open>
  C4, as the specification words it, fails: the test is \<^verbatim>\<open>status_code == 200\<close>, so a
  response with another status of the 2xx range, here 201, is logged as an error and its
  table list is dropped.
\<close>

theorem get_all_tables_2xx_counterexample:
  "200 \<le> status_code response_201 \<and> status_code response_201 < 300
   \<and> body_json response_201
       = Inr (JObj [(str ''tables'', JArr [JObj [(str ''id'', JStr COMPANY_TABLE_ID)]])])
   \<and> get_all_tables response_201
       = ([str ''Error fetching tables: 201 - created''], Inr (JArr []))
   \<and> snd (get_all_tables response_201) \<noteq> Inr (JArr [JObj [(str ''id'', JStr COMPANY_TABLE_ID)]])"
  by (simp add: response_201_def get_all_tables_def str_of_int_def str_of_nat.simps str_def)

text \<open>
  C4, as the code has it: on status 200, with a body that decodes to an object,
  \<open>get_all_tables\<close> prints nothing and returns the \<^verbatim>\<open>tables\<close> field of the body, or
  the empty list if the body has none; on any other status it prints one line with the
  status code and the text of the response and returns the empty list, without raising.
\<close>

theorem get_all_tables_200:
  "(status_code r = 200 \<and> body_json r = Inr (JObj kvs) \<longrightarrow>
      get_all_tables r
        = ([], Inr (case map_of kvs (str ''tables'') of Some v \<Rightarrow> v | None \<Rightarrow> JArr [])))
   \<and> (status_code r \<noteq> 200 \<longrightarrow>
      get_all_tables r
        = ([str ''Error fetching tables: '' @ str_of_int (status_code r) @ str '' - '' @ body_text r],
           Inr (JArr [])))"
  by (simp add: get_all_tables_def)

theorem get_all_tables_200_witness:
  "get_all_tables (response_200 (JObj [(str ''tables'', JArr [company_a, division_a])]))
     = ([], Inr (JArr [company_a, division_a]))
   \<and> get_all_tables (response_200 (JObj [(str ''offset'', JNull)])) = ([], Inr (JArr []))
   \<and> get_all_tables response_403
     = ([str ''Error fetching tables: 403 - forbidden''], Inr (JArr []))"
  using get_all_tables_200 [of "response_200 (JObj [(str ''tables'', JArr [company_a, division_a])])"
          "[(str ''tables'', JArr [company_a, division_a])]"]
        get_all_tables_200 [of "response_200 (JObj [(str ''offset'', JNull)])"
          "[(str ''offset'', JNull)]"]
        get_all_tables_200 [of response_403]
  by (simp add: response_200_def response_403_def str_of_int_def str_of_nat.simps str_def)

section \<open>Selecting the two tables\<close>

text \<open>
  On a list of schema objects the generator expression with \<^verbatim>\<open>next\<close> is \<open>find\<close>; an
  element that satisfies the test once does so wherever it stands, so a permutation
  changes the result only among several elements that satisfy it.
\<close>

lemma next_match_find:
  "\<forall>t\<in>set ts. is_dict t \<Longrightarrow> next_match wanted ts = Inr (find (has_id wanted) ts)"
proof (induction ts)
  case Nil
  show ?case by simp
next
  case (Cons t ts)
  then obtain kvs where t: "t = JObj kvs"
    by (cases t) simp_all
  from Cons show ?case
    by (simp add: t has_id_def)
qed

lemma find_filter: "find P xs = (case filter P xs of [] \<Rightarrow> None | x # _ \<Rightarrow> Some x)"
  by (induction xs) simp_all

lemma find_permuted:
  assumes "mset ys = mset xs"
  shows "(find P ys = None) = (find P xs = None)"
    and "length (filter P xs) \<le> 1 \<Longrightarrow> find P ys = find P xs"
proof -
  show "(find P ys = None) = (find P xs = None)"
    using mset_eq_setD [OF assms] by (simp add: find_None_iff)
next
  assume le: "length (filter P xs) \<le> 1"
  have m: "mset (filter P ys) = mset (filter P xs)"
    using assms by simp
  show "find P ys = find P xs"
  proof (cases "filter P xs")
    case Nil
    with m show ?thesis by (simp add: find_filter)
  next
    case (Cons x rest)
    with le have fx: "filter P xs = [x]" by simp
    with m have "mset (filter P ys) = {#x#}"
      by (simp del: mset_filter)
    then have "filter P ys = [x]"
      by (simp only: mset_single_iff)
    with fx show ?thesis by (simp add: find_filter)
  qed
qed

text \<open>
  Once the table list is fetched and the two selections are made, the run dumps the
  dictionary of the two selections, or stops in the encoder.
\<close>

lemma extract_schema_selected:
  assumes "get_all_tables r = (out, Inr (JArr ts))"
    and "next_match COMPANY_TABLE_ID ts = Inr c" and "next_match DIVISION_TABLE_ID ts = Inr d"
  shows "encodable (output_dict c d) \<Longrightarrow>
           dumped (extract_schema py_str r) = Some (output_dict c d)"
    and "\<not> encodable (output_dict c d) \<Longrightarrow>
           extract_schema py_str r
             = \<lparr>console = out, dumped = None, raised = Some UnicodeEncodeError\<rparr>"
proof -
  assume "encodable (output_dict c d)"
  with assms show "dumped (extract_schema py_str r) = Some (output_dict c d)"
    by (simp add: extract_schema_def Let_def split: prod.splits option.splits)
next
  assume "\<not> encodable (output_dict c d)"
  with assms show "extract_schema py_str r
             = \<lparr>console = out, dumped = None, raised = Some UnicodeEncodeError\<rparr>"
    by (simp add: extract_schema_def Let_def)
qed

lemma extract_schema_dumped:
  assumes "get_all_tables r = (out, Inr (JArr ts))"
    and "next_match COMPANY_TABLE_ID ts = Inr c" and "next_match DIVISION_TABLE_ID ts = Inr d"
  shows "dumped (extract_schema py_str r)
           = (if encodable (output_dict c d) then Some (output_dict c d) else None)"
  using extract_schema_selected [OF assms, of py_str] by (cases "encodable (output_dict c d)") simp_all

lemmas json_eval =
  has_id_def COMPANY_TABLE_ID_def DIVISION_TABLE_ID_def str_def
  company_a_def company_b_def division_a_def other_a_def

text \<open>
  C8. Let the fetch return a list of schema objects. The script makes its two selections
  from that list with \<open>COMPANY_TABLE_ID\<close> and with \<open>DIVISION_TABLE_ID\<close>, and the file
  it writes holds exactly these two under \<^verbatim>\<open>company\<close> and \<^verbatim>\<open>division\<close> (the run stops
  with \<^verbatim>\<open>UnicodeEncodeError\<close> instead if a selected object has a string that UTF-8
  cannot encode). For a wanted identifier the selection is \<^verbatim>\<open>None\<close> if no object has
  the identifier; it is the object at position \<open>i\<close> if that one has the identifier and
  none before it has, so the earliest of several wins; and for any reordering of the
  list, whether something is found is the same, and so is what is found if at most one
  object has the identifier. So, when neither identifier occurs twice, the file written
  from a reordered list is the same.
\<close>

theorem extract_schema_first_match:
  assumes "get_all_tables r = (out, Inr (JArr ts))" and "\<forall>t\<in>set ts. is_dict t"
  shows "(\<exists>company_table division_table.
            next_match COMPANY_TABLE_ID ts = Inr company_table
          \<and> next_match DIVISION_TABLE_ID ts = Inr division_table
          \<and> (encodable (output_dict company_table division_table) \<longrightarrow>
               dumped (extract_schema py_str r) = Some (output_dict company_table division_table))
          \<and> (\<not> encodable (output_dict company_table division_table) \<longrightarrow>
               extract_schema py_str r
                 = \<lparr>console = out, dumped = None, raised = Some UnicodeEncodeError\<rparr>))
    \<and> (\<forall>wanted.
          ((\<forall>t\<in>set ts. \<not> has_id wanted t) \<longrightarrow> next_match wanted ts = Inr None)
        \<and> (\<forall>i<length ts. has_id wanted (ts ! i) \<and> (\<forall>j<i. \<not> has_id wanted (ts ! j))
              \<longrightarrow> next_match wanted ts = Inr (Some (ts ! i)))
        \<and> (\<forall>ts'. mset ts' = mset ts \<longrightarrow>
              ((next_match wanted ts' = Inr None) = (next_match wanted ts = Inr None))
              \<and> (length (filter (has_id wanted) ts) \<le> 1 \<longrightarrow>
                   next_match wanted ts' = next_match wanted ts)))
    \<and> (\<forall>r' out' ts'.
          get_all_tables r' = (out', Inr (JArr ts')) \<and> mset ts' = mset ts
          \<and> length (filter (has_id COMPANY_TABLE_ID) ts) \<le> 1
          \<and> length (filter (has_id DIVISION_TABLE_ID) ts) \<le> 1
          \<longrightarrow> dumped (extract_schema py_str r') = dumped (extract_schema py_str r))"
proof -
  note nm = next_match_find [OF assms(2)]
  have perm_dicts: "\<forall>t\<in>set ts'. is_dict t" if "mset ts' = mset ts" for ts'
    using that assms(2) mset_eq_setD by blast
  have script: "\<exists>company_table division_table.
            next_match COMPANY_TABLE_ID ts = Inr company_table
          \<and> next_match DIVISION_TABLE_ID ts = Inr division_table
          \<and> (encodable (output_dict company_table division_table) \<longrightarrow>
               dumped (extract_schema py_str r) = Some (output_dict company_table division_table))
          \<and> (\<not> encodable (output_dict company_table division_table) \<longrightarrow>
               extract_schema py_str r
                 = \<lparr>console = out, dumped = None, raised = Some UnicodeEncodeError\<rparr>)"
    using extract_schema_selected [OF assms(1) nm nm, of py_str] nm by blast
  have sel: "((\<forall>t\<in>set ts. \<not> has_id wanted t) \<longrightarrow> next_match wanted ts = Inr None)
        \<and> (\<forall>i<length ts. has_id wanted (ts ! i) \<and> (\<forall>j<i. \<not> has_id wanted (ts ! j))
              \<longrightarrow> next_match wanted ts = Inr (Some (ts ! i)))
        \<and> (\<forall>ts'. mset ts' = mset ts \<longrightarrow>
              ((next_match wanted ts' = Inr None) = (next_match wanted ts = Inr None))
              \<and> (length (filter (has_id wanted) ts) \<le> 1 \<longrightarrow>
                   next_match wanted ts' = next_match wanted ts))" for wanted
  proof -
    have none: "(\<forall>t\<in>set ts. \<not> has_id wanted t) \<longrightarrow> next_match wanted ts = Inr None"
      by (auto simp: nm find_None_iff)
    have first: "\<forall>i<length ts. has_id wanted (ts ! i) \<and> (\<forall>j<i. \<not> has_id wanted (ts ! j))
          \<longrightarrow> next_match wanted ts = Inr (Some (ts ! i))"
      unfolding nm by (auto simp: find_Some_iff)
    have perm: "\<forall>ts'. mset ts' = mset ts \<longrightarrow>
          ((next_match wanted ts' = Inr None) = (next_match wanted ts = Inr None))
          \<and> (length (filter (has_id wanted) ts) \<le> 1 \<longrightarrow>
               next_match wanted ts' = next_match wanted ts)"
    proof (intro allI impI)
      fix ts' assume m: "mset ts' = mset ts"
      have nm': "next_match wanted ts' = Inr (find (has_id wanted) ts')"
        using perm_dicts [OF m] by (rule next_match_find)
      show "((next_match wanted ts' = Inr None) = (next_match wanted ts = Inr None))
          \<and> (length (filter (has_id wanted) ts) \<le> 1 \<longrightarrow>
               next_match wanted ts' = next_match wanted ts)"
        unfolding nm nm' using find_permuted [OF m, of "has_id wanted"] by simp
    qed
    from none first perm show ?thesis by blast
  qed
  have stable: "dumped (extract_schema py_str r') = dumped (extract_schema py_str r)"
    if g': "get_all_tables r' = (out', Inr (JArr ts'))" and m: "mset ts' = mset ts"
      and c1: "length (filter (has_id COMPANY_TABLE_ID) ts) \<le> 1"
      and d1: "length (filter (has_id DIVISION_TABLE_ID) ts) \<le> 1"
    for r' out' ts'
  proof -
    note nm' = next_match_find [OF perm_dicts [OF m]]
    have "find (has_id COMPANY_TABLE_ID) ts' = find (has_id COMPANY_TABLE_ID) ts"
      "find (has_id DIVISION_TABLE_ID) ts' = find (has_id DIVISION_TABLE_ID) ts"
      using find_permuted(2) [OF m] c1 d1 by blast+
    then show ?thesis
      by (simp add: extract_schema_dumped [OF g' nm' nm'] extract_schema_dumped [OF assms(1) nm nm])
  qed
  from script sel stable show ?thesis by blast
qed

text \<open>
  Runs on lists with two company tables in either order, on a list without a company
  table in either order, and on a list whose company table cannot be encoded.
\<close>

theorem extract_schema_first_match_witness:
  "dumped (extract_schema (\<lambda>v. [])
       (response_200 (JObj [(str ''tables'', JArr [other_a, company_a, division_a, company_b])])))
     = Some (JObj [(str ''company'', company_a), (str ''division'', division_a)])
   \<and> dumped (extract_schema (\<lambda>v. [])
       (response_200 (JObj [(str ''tables'', JArr [company_b, division_a, company_a, other_a])])))
     = Some (JObj [(str ''company'', company_b), (str ''division'', division_a)])
   \<and> dumped (extract_schema (\<lambda>v. [])
       (response_200 (JObj [(str ''tables'', JArr [division_a, other_a])])))
     = Some (JObj [(str ''company'', JNull), (str ''division'', division_a)])
   \<and> dumped (extract_schema (\<lambda>v. [])
       (response_200 (JObj [(str ''tables'', JArr [other_a, division_a])])))
     = Some (JObj [(str ''company'', JNull), (str ''division'', division_a)])
   \<and> extract_schema (\<lambda>v. [])
       (response_200 (JObj [(str ''tables'', JArr [other_a, company_surrogate])]))
     = \<lparr>console = [], dumped = None, raised = Some UnicodeEncodeError\<rparr>"
proof -
  have fetch: "get_all_tables (response_200 (JObj [(str ''tables'', JArr ts)])) = ([], Inr (JArr ts))"
    for ts
    by (simp add: get_all_tables_def response_200_def str_def)
  have written: "dumped (extract_schema (\<lambda>v. []) (response_200 (JObj [(str ''tables'', JArr ts)])))
        = Some (output_dict c d)"
    if "\<forall>t\<in>set ts. is_dict t" and c: "next_match COMPANY_TABLE_ID ts = Inr c"
      and d: "next_match DIVISION_TABLE_ID ts = Inr d" and "encodable (output_dict c d)"
    for ts c d
  proof -
    from extract_schema_first_match [OF fetch that(1), of "\<lambda>v. []"]
    obtain c' d' where "next_match COMPANY_TABLE_ID ts = Inr c'"
      and "next_match DIVISION_TABLE_ID ts = Inr d'"
      and "encodable (output_dict c' d') \<longrightarrow>
             dumped (extract_schema (\<lambda>v. []) (response_200 (JObj [(str ''tables'', JArr ts)])))
               = Some (output_dict c' d')"
      by blast
    with c d that(4) show ?thesis by simp
  qed
  have failed: "extract_schema (\<lambda>v. []) (response_200 (JObj [(str ''tables'', JArr ts)]))
        = \<lparr>console = [], dumped = None, raised = Some UnicodeEncodeError\<rparr>"
    if "\<forall>t\<in>set ts. is_dict t" and c: "next_match COMPANY_TABLE_ID ts = Inr c"
      and d: "next_match DIVISION_TABLE_ID ts = Inr d" and "\<not> encodable (output_dict c d)"
    for ts c d
  proof -
    from extract_schema_first_match [OF fetch that(1), of "\<lambda>v. []"]
    obtain c' d' where "next_match COMPANY_TABLE_ID ts = Inr c'"
      and "next_match DIVISION_TABLE_ID ts = Inr d'"
      and "\<not> encodable (output_dict c' d') \<longrightarrow>
             extract_schema (\<lambda>v. []) (response_200 (JObj [(str ''tables'', JArr ts)]))
               = \<lparr>console = [], dumped = None, raised = Some UnicodeEncodeError\<rparr>"
      by blast
    with c d that(4) show ?thesis by simp
  qed
  have a: "dumped (extract_schema (\<lambda>v. [])
       (response_200 (JObj [(str ''tables'', JArr [other_a, company_a, division_a, company_b])])))
     = Some (output_dict (Some company_a) (Some division_a))"
    by (rule written) (simp_all add: json_eval output_dict_def is_surrogate_def)
  have b: "dumped (extract_schema (\<lambda>v. [])
       (response_200 (JObj [(str ''tables'', JArr [company_b, division_a, company_a, other_a])])))
     = Some (output_dict (Some company_b) (Some division_a))"
    by (rule written) (simp_all add: json_eval output_dict_def is_surrogate_def)
  have c: "dumped (extract_schema (\<lambda>v. [])
       (response_200 (JObj [(str ''tables'', JArr [division_a, other_a])])))
     = Some (output_dict None (Some division_a))"
    by (rule written) (simp_all add: json_eval output_dict_def is_surrogate_def)
  have d: "dumped (extract_schema (\<lambda>v. [])
       (response_200 (JObj [(str ''tables'', JArr [other_a, division_a])])))
     = Some (output_dict None (Some division_a))"
  proof -
    have dicts: "\<forall>t\<in>set [division_a, other_a]. is_dict t"
      by (simp add: json_eval)
    have "get_all_tables (response_200 (JObj [(str ''tables'', JArr [other_a, division_a])]))
            = ([], Inr (JArr [other_a, division_a]))
          \<and> mset [other_a, division_a] = mset [division_a, other_a]
          \<and> length (filter (has_id COMPANY_TABLE_ID) [division_a, other_a]) \<le> 1
          \<and> length (filter (has_id DIVISION_TABLE_ID) [division_a, other_a]) \<le> 1"
      by (simp add: fetch) (simp add: json_eval)
    with extract_schema_first_match [OF fetch dicts, of "\<lambda>v. []"]
    have "dumped (extract_schema (\<lambda>v. [])
             (response_200 (JObj [(str ''tables'', JArr [other_a, division_a])])))
        = dumped (extract_schema (\<lambda>v. [])
             (response_200 (JObj [(str ''tables'', JArr [division_a, other_a])])))"
      by blast
    with c show ?thesis by simp
  qed
  have e: "extract_schema (\<lambda>v. [])
       (response_200 (JObj [(str ''tables'', JArr [other_a, company_surrogate])]))
     = \<lparr>console = [], dumped = None, raised = Some UnicodeEncodeError\<rparr>"
    by (rule failed [where c = "Some company_surrogate" and d = None])
      (simp_all add: json_eval company_surrogate_def output_dict_def is_surrogate_def)
  from a b c d e show ?thesis
    by (simp add: output_dict_def)
qed

section \<open>The output without a match\<close>

text \<open>
  C9. If the table list that was fetched is a list of schema objects none of which has
  the company or the division identifier, the script dumps \<open>null_output\<close>, the object
  with the two keys \<^verbatim>\<open>company\<close> and \<^verbatim>\<open>division\<close> and the value \<^verbatim>\<open>null\<close> for both,
  and prints the closing line after what the fetch printed. If the status is not 200, the
  list is empty, the same value is dumped, and the console starts with the line that
  reports the status code and the text of the response: the two cases differ on the
  console only.
\<close>

theorem no_match_dumps_nulls:
  "(get_all_tables r = (out, Inr (JArr ts))
      \<and> (\<forall>t\<in>set ts. is_dict t \<and> \<not> has_id COMPANY_TABLE_ID t \<and> \<not> has_id DIVISION_TABLE_ID t)
     \<longrightarrow> extract_schema py_str r
           = \<lparr>console = out @ [str ''Company table schema extracted successfully!''],
              dumped = Some null_output, raised = None\<rparr>)
   \<and> (status_code r \<noteq> 200
     \<longrightarrow> extract_schema py_str r
           = \<lparr>console = [str ''Error fetching tables: '' @ str_of_int (status_code r)
                          @ str '' - '' @ body_text r,
                         str ''Company table schema extracted successfully!''],
              dumped = Some null_output, raised = None\<rparr>)"
proof -
  have main: "extract_schema py_str r
           = \<lparr>console = out @ [str ''Company table schema extracted successfully!''],
              dumped = Some null_output, raised = None\<rparr>"
    if g: "get_all_tables r = (out, Inr (JArr ts))"
      and d: "\<forall>t\<in>set ts. is_dict t"
      and n: "\<forall>t\<in>set ts. \<not> has_id COMPANY_TABLE_ID t \<and> \<not> has_id DIVISION_TABLE_ID t"
    for out ts
  proof -
    from n have "find (has_id COMPANY_TABLE_ID) ts = None" "find (has_id DIVISION_TABLE_ID) ts = None"
      by (simp_all add: find_None_iff)
    with next_match_find [OF d] have
      "next_match COMPANY_TABLE_ID ts = Inr None" "next_match DIVISION_TABLE_ID ts = Inr None"
      by simp_all
    with g show ?thesis
      by (simp add: extract_schema_def company_summary_def division_summary_def null_output_def
          output_dict_def str_def is_surrogate_def)
  qed
  have failed: "get_all_tables r
        = ([str ''Error fetching tables: '' @ str_of_int (status_code r) @ str '' - '' @ body_text r],
           Inr (JArr []))" if "status_code r \<noteq> 200"
    using that by (simp add: get_all_tables_def)
  show ?thesis
    using main main [OF failed] by auto
qed

theorem no_match_dumps_nulls_witness:
  "extract_schema (\<lambda>v. []) (response_200 (JObj [(str ''tables'', JArr [other_a])]))
     = \<lparr>console = [str ''Company table schema extracted successfully!''],
        dumped = Some null_output, raised = None\<rparr>
   \<and> extract_schema (\<lambda>v. []) response_403
     = \<lparr>console = [str ''Error fetching tables: 403 - forbidden'',
                   str ''Company table schema extracted successfully!''],
        dumped = Some null_output, raised = None\<rparr>"
proof -
  let ?r = "response_200 (JObj [(str ''tables'', JArr [other_a])])"
  have g: "get_all_tables ?r = ([], Inr (JArr [other_a]))"
    by (simp add: get_all_tables_def response_200_def str_def)
  have n: "\<forall>t\<in>set [other_a]. is_dict t \<and> \<not> has_id COMPANY_TABLE_ID t \<and> \<not> has_id DIVISION_TABLE_ID t"
    by (simp add: json_eval)
  have ok: "extract_schema (\<lambda>v. []) ?r
     = \<lparr>console = [str ''Company table schema extracted successfully!''],
        dumped = Some null_output, raised = None\<rparr>"
    using no_match_dumps_nulls [of ?r "[]" "[other_a]" "\<lambda>v. []"] g n by simp
  have s: "status_code response_403 \<noteq> 200"
    by (simp add: response_403_def)
  have "str_of_int (status_code response_403) = str ''403''" "body_text response_403 = str ''forbidden''"
    by (simp_all add: response_403_def str_of_int_def str_of_nat.simps str_def)
  then have failed: "extract_schema (\<lambda>v. []) response_403
     = \<lparr>console = [str ''Error fetching tables: 403 - forbidden'',
                   str ''Company table schema extracted successfully!''],
        dumped = Some null_output, raised = None\<rparr>"
    using no_match_dumps_nulls [of response_403 _ _ "\<lambda>v. []"] s by (simp add: str_def)
  from ok failed show ?thesis by blast
qed

end
